theory Spec2Isabelle
  imports Complex_Main "HOL-Library.Sublist"
begin

section \<open>Server monitor bot: progress bar, publisher tick, uptime resolver, colours\<close>

subsection \<open>Progress bar (\<open>create_progress_bar\<close>)\<close>

text \<open>
  A Python \<open>str\<close> is a sequence of code points. The two glyphs of the bar lie outside
  ASCII, so a bar is modelled as the list of its code points: U+2588 (full block) is the
  filled glyph and U+2591 (light shade) the empty one.
\<close>

type_synonym codepoint = nat

definition full_block :: codepoint where
  "full_block = 9608"

definition light_shade :: codepoint where
  "light_shade = 9617"

text \<open>
  \<open>int(x)\<close> on a Python number truncates towards zero.
\<close>

definition py_int :: "real \<Rightarrow> int" where
  "py_int x = (if 0 \<le> x then \<lfloor>x\<rfloor> else \<lceil>x\<rceil>)"

text \<open>
  \<open>c * n\<close> on a one-character string repeats it \<open>n\<close> times; a count below one
  gives the empty string.
\<close>

definition py_repeat :: "codepoint \<Rightarrow> int \<Rightarrow> codepoint list" where
  "py_repeat c n = (if n \<le> 0 then [] else replicate (nat n) c)"

text \<open>
  \<^verbatim>\<open>
  def create_progress_bar(percent, length=10):
      filled_length = int(length * percent / 100)
      bar = FULL * filled_length + SHADE * (length - filled_length)
      return bar
  \<close>
  The parameter \<open>length\<close> is written \<open>len\<close> (the name is taken in HOL).
  The percentage is a Python number; it is taken as an exact real here, and the product and
  the quotient are exact. The rounding of IEEE doubles is not part of the model. For the
  percentages the callers pass (one decimal, at the default length) the rounding changes
  nothing; for other doubles it can move the quotient onto the next integer.
\<close>

definition filled_length :: "real \<Rightarrow> int \<Rightarrow> int" where
  "filled_length percent len = py_int (real_of_int len * percent / 100)"

definition create_progress_bar :: "real \<Rightarrow> int \<Rightarrow> codepoint list" where
  "create_progress_bar percent len =
     py_repeat full_block (filled_length percent len)
       @ py_repeat light_shade (len - filled_length percent len)"

definition create_progress_bar_default :: "real \<Rightarrow> codepoint list" where
  "create_progress_bar_default percent = create_progress_bar percent 10"

subsection \<open>Publisher tick (\<open>update_stats\<close>)\<close>

text \<open>
  The chat library raises \<open>discord.NotFound\<close> and \<open>discord.Forbidden\<close>, both subclasses
  of \<open>discord.HTTPException\<close>. \<open>HTTPException\<close> below stands for an HTTP error that is
  neither of the two, and \<open>OtherException\<close> for an exception outside that hierarchy, which no
  \<open>except\<close> clause of \<open>update_stats\<close> names.
\<close>

datatype discord_error = NotFound | Forbidden | HTTPException | OtherException

datatype channel = Channel int

text \<open>
  The calls a tick makes on the chat API, in order. \<open>EditMessage i\<close> is \<open>message.edit\<close> on
  the message object that \<open>channel.fetch_message(i)\<close> returned.
\<close>

datatype api_call = FetchMessage int | EditMessage int | SendMessage

datatype log_line =
    ChannelIdNotSet
  | ChannelNotFound int
  | MissingEditPermission int
  | ErrorEditing
  | MissingSendPermission int
  | ErrorSending

text \<open>
  What the surroundings answer during one tick: the configured channel id, the channel
  cache of the client, whether \<open>create_stats_embed()\<close> returns an embed (it samples the
  host and may raise), and the outcome of each API call (\<open>None\<close>: the call returns;
  \<open>Inr i\<close>: \<open>channel.send\<close> returns a message whose id is \<open>i\<close>).
\<close>

record tick_env =
  MONITOR_CHANNEL_ID :: int
  get_channel :: "int \<Rightarrow> channel option"
  embed_built :: bool
  fetch_message :: "int \<Rightarrow> discord_error option"
  edit :: "int \<Rightarrow> discord_error option"
  send :: "discord_error + int"

datatype outcome = Returned | Raised discord_error | EmbedRaised

record tick_result =
  monitor_message_id :: "int option"
  calls :: "api_call list"
  printed :: "log_line list"
  outcome :: outcome

text \<open>
  \<^verbatim>\<open>
  message = await channel.send(embed=embed)
  monitor_message_id = message.id
  \<close>
  inside the handler of \<open>discord.NotFound\<close>: an exception raised here is not seen by the
  sibling \<open>except\<close> clauses and leaves \<open>update_stats\<close>.
\<close>

definition resend :: "tick_env \<Rightarrow> int option \<Rightarrow> api_call list \<Rightarrow> tick_result" where
  "resend env mid cs =
     (case send env of
        Inr new_id \<Rightarrow>
          \<lparr>monitor_message_id = Some new_id, calls = cs @ [SendMessage],
           printed = [], outcome = Returned\<rparr>
      | Inl e \<Rightarrow>
          \<lparr>monitor_message_id = mid, calls = cs @ [SendMessage],
           printed = [], outcome = Raised e\<rparr>)"

text \<open>
  The \<open>except\<close> clauses of the edit branch, in the order of the source.
\<close>

fun edit_failed :: "tick_env \<Rightarrow> int option \<Rightarrow> api_call list \<Rightarrow> discord_error \<Rightarrow> tick_result" where
  "edit_failed env mid cs NotFound = resend env mid cs"
| "edit_failed env mid cs Forbidden =
     \<lparr>monitor_message_id = mid, calls = cs,
      printed = [MissingEditPermission (MONITOR_CHANNEL_ID env)], outcome = Returned\<rparr>"
| "edit_failed env mid cs HTTPException =
     \<lparr>monitor_message_id = mid, calls = cs, printed = [ErrorEditing], outcome = Returned\<rparr>"
| "edit_failed env mid cs OtherException =
     \<lparr>monitor_message_id = mid, calls = cs, printed = [], outcome = Raised OtherException\<rparr>"

text \<open>
  The \<open>except\<close> clauses of the first-send branch: \<open>discord.Forbidden\<close>, then
  \<open>discord.HTTPException\<close>, which also takes \<open>NotFound\<close>.
\<close>

fun send_failed :: "tick_env \<Rightarrow> int option \<Rightarrow> api_call list \<Rightarrow> discord_error \<Rightarrow> tick_result" where
  "send_failed env mid cs Forbidden =
     \<lparr>monitor_message_id = mid, calls = cs,
      printed = [MissingSendPermission (MONITOR_CHANNEL_ID env)], outcome = Returned\<rparr>"
| "send_failed env mid cs NotFound =
     \<lparr>monitor_message_id = mid, calls = cs, printed = [ErrorSending], outcome = Returned\<rparr>"
| "send_failed env mid cs HTTPException =
     \<lparr>monitor_message_id = mid, calls = cs, printed = [ErrorSending], outcome = Returned\<rparr>"
| "send_failed env mid cs OtherException =
     \<lparr>monitor_message_id = mid, calls = cs, printed = [], outcome = Raised OtherException\<rparr>"

text \<open>
  The branch \<open>if monitor_message_id:\<close>, for the stored id \<open>i\<close>: fetch the message, then
  edit it; the first call that raises goes to the \<open>except\<close> clauses.
\<close>

definition try_edit :: "tick_env \<Rightarrow> int \<Rightarrow> tick_result" where
  "try_edit env i =
     (case fetch_message env i of
        Some e \<Rightarrow> edit_failed env (Some i) [FetchMessage i] e
      | None \<Rightarrow>
          (case edit env i of
             Some e \<Rightarrow> edit_failed env (Some i) [FetchMessage i, EditMessage i] e
           | None \<Rightarrow>
               \<lparr>monitor_message_id = Some i, calls = [FetchMessage i, EditMessage i],
                printed = [], outcome = Returned\<rparr>))"

text \<open>
  The \<open>else\<close> branch: send the initial message and store its id.
\<close>

definition first_send :: "tick_env \<Rightarrow> int option \<Rightarrow> tick_result" where
  "first_send env mid =
     (case send env of
        Inr new_id \<Rightarrow>
          \<lparr>monitor_message_id = Some new_id, calls = [SendMessage],
           printed = [], outcome = Returned\<rparr>
      | Inl e \<Rightarrow> send_failed env mid [SendMessage] e)"

text \<open>
  One run of \<open>update_stats\<close>, from the value \<open>mid\<close> of the global \<open>monitor_message_id\<close>.
  The test \<open>if monitor_message_id:\<close> is Python truthiness: \<open>None\<close> and the integer 0 are
  both false. The embed is built after the two guards and before the branch; it is the
  payload of the edit and of the send, and its content has no part in the control flow. An
  exception of \<open>create_stats_embed\<close> leaves \<open>update_stats\<close> before any call on the API.
\<close>

definition update_stats :: "tick_env \<Rightarrow> int option \<Rightarrow> tick_result" where
  "update_stats env mid =
     (if MONITOR_CHANNEL_ID env = 0 then
        \<lparr>monitor_message_id = mid, calls = [], printed = [ChannelIdNotSet], outcome = Returned\<rparr>
      else case get_channel env (MONITOR_CHANNEL_ID env) of
        None \<Rightarrow>
          \<lparr>monitor_message_id = mid, calls = [],
           printed = [ChannelNotFound (MONITOR_CHANNEL_ID env)], outcome = Returned\<rparr>
      | Some ch \<Rightarrow>
          if \<not> embed_built env then
            \<lparr>monitor_message_id = mid, calls = [], printed = [], outcome = EmbedRaised\<rparr>
          else
            (case mid of
               Some i \<Rightarrow> if i \<noteq> 0 then try_edit env i else first_send env mid
             | None \<Rightarrow> first_send env mid))"

text \<open>
  Consecutive ticks: each run starts from the id the previous one left. A run that raises
  ends the sequence here (the exception has left \<open>update_stats\<close>).
\<close>

fun run_ticks :: "int option \<Rightarrow> tick_env list \<Rightarrow> tick_result list" where
  "run_ticks mid [] = []"
| "run_ticks mid (env # envs) =
     (let r = update_stats env mid in
      r # (case outcome r of
             Returned \<Rightarrow> run_ticks (monitor_message_id r) envs
           | Raised e \<Rightarrow> []
           | EmbedRaised \<Rightarrow> []))"

text \<open>
  The channel id is set, the client resolves it and the embed is built: the tick reaches
  the branch on \<open>monitor_message_id\<close>.
\<close>

definition tick_proceeds :: "tick_env \<Rightarrow> bool" where
  "tick_proceeds env =
     (MONITOR_CHANNEL_ID env \<noteq> 0 \<and> get_channel env (MONITOR_CHANNEL_ID env) \<noteq> None
      \<and> embed_built env)"

text \<open>
  The two results of a tick in which every call returns: a send that gave the id \<open>m\<close>, and
  a fetch and edit of the message \<open>m\<close>.
\<close>

definition sent :: "int \<Rightarrow> tick_result" where
  "sent m =
     \<lparr>monitor_message_id = Some m, calls = [SendMessage], printed = [], outcome = Returned\<rparr>"

definition edited :: "int \<Rightarrow> tick_result" where
  "edited m =
     \<lparr>monitor_message_id = Some m, calls = [FetchMessage m, EditMessage m],
      printed = [], outcome = Returned\<rparr>"

text \<open>
  Environments of single ticks, for the examples: every call returns (and a send gives the
  id \<open>n\<close>); the tracked message is gone; the channel id is not set; the channel id is
  not in the cache; permission is missing for the edit and for the send.
\<close>

definition env_ok :: "int \<Rightarrow> tick_env" where
  "env_ok n =
     \<lparr>MONITOR_CHANNEL_ID = 7, get_channel = (\<lambda>c. if c = 7 then Some (Channel 7) else None),
      embed_built = True, fetch_message = (\<lambda>i. None), edit = (\<lambda>i. None), send = Inr n\<rparr>"

definition env_deleted :: tick_env where
  "env_deleted =
     \<lparr>MONITOR_CHANNEL_ID = 7, get_channel = (\<lambda>c. if c = 7 then Some (Channel 7) else None),
      embed_built = True, fetch_message = (\<lambda>i. Some NotFound), edit = (\<lambda>i. None),
      send = Inr 99\<rparr>"

definition env_unset :: tick_env where
  "env_unset =
     \<lparr>MONITOR_CHANNEL_ID = 0, get_channel = (\<lambda>c. Some (Channel c)),
      embed_built = True, fetch_message = (\<lambda>i. None), edit = (\<lambda>i. None), send = Inr 99\<rparr>"

definition env_no_channel :: tick_env where
  "env_no_channel =
     \<lparr>MONITOR_CHANNEL_ID = 7, get_channel = (\<lambda>c. None),
      embed_built = True, fetch_message = (\<lambda>i. None), edit = (\<lambda>i. None), send = Inr 99\<rparr>"

definition env_forbidden :: tick_env where
  "env_forbidden =
     \<lparr>MONITOR_CHANNEL_ID = 7, get_channel = (\<lambda>c. if c = 7 then Some (Channel 7) else None),
      embed_built = True, fetch_message = (\<lambda>i. None), edit = (\<lambda>i. Some Forbidden),
      send = Inl Forbidden\<rparr>"

subsection \<open>Uptime resolver (\<open>get_server_uptime\<close>)\<close>

text \<open>
  The output of a command is text; it is modelled as a \<open>string\<close>, whose characters stand
  for the code points below 256.
\<close>

definition newline :: char where
  "newline = CHR 0x0A"

text \<open>
  \<open>str.isspace\<close> on the code points below 256: tab to carriage return, the four
  separators 0x1C to 0x1F, the space, NEL (0x85) and the no-break space (0xA0).
\<close>

definition isspace :: "char \<Rightarrow> bool" where
  "isspace c =
     (let n = (of_char c :: nat)
      in (9 \<le> n \<and> n \<le> 13) \<or> (28 \<le> n \<and> n \<le> 32) \<or> n = 133 \<or> n = 160)"

text \<open>\<open>str.strip()\<close>: drop the whitespace at both ends.\<close>

definition strip :: "string \<Rightarrow> string" where
  "strip s = rev (dropWhile isspace (rev (dropWhile isspace s)))"

text \<open>
  \<open>s.replace('up ', '')\<close>: every occurrence of \<open>up \<close> is deleted, scanning from the left
  and resuming behind each occurrence.
\<close>

fun replace_up :: "string \<Rightarrow> string" where
  "replace_up [] = []"
| "replace_up (c # cs) =
     (if prefix ''up '' (c # cs) then replace_up (drop 2 cs) else c # replace_up cs)"

text \<open>
  \<open>re.search(p, s)\<close> tries the pattern at each start position from the left, the end of the
  string included, and answers with the first position where it matches. The argument \<open>m\<close>
  is the pattern anchored at the start of its input; it returns group 1 of the match.
\<close>

fun re_search :: "(string \<Rightarrow> string option) \<Rightarrow> string \<Rightarrow> string option" where
  "re_search m [] = m []"
| "re_search m (c # cs) =
     (case m (c # cs) of Some g \<Rightarrow> Some g | None \<Rightarrow> re_search m cs)"

text \<open>
  The pattern \<^verbatim>\<open>Uptime: (.+)\<close>: the literal, then the longest run of characters other than
  a newline, which must not be empty.
\<close>

definition match_Uptime :: "string \<Rightarrow> string option" where
  "match_Uptime s =
     (if prefix ''Uptime: '' s then
        (let g = takeWhile (\<lambda>c. c \<noteq> newline) (drop 8 s)
         in if g = [] then None else Some g)
      else None)"

text \<open>
  The pattern \<^verbatim>\<open>up (.+?)(,|\n)\<close>: the literal, one character other than a newline, then
  as few further such characters as possible up to a comma or a newline. The first
  character of the group may itself be a comma.
\<close>

definition match_up_comma_or_newline :: "string \<Rightarrow> string option" where
  "match_up_comma_or_newline s =
     (if prefix ''up '' s then
        (case drop 3 s of
           [] \<Rightarrow> None
         | c # r \<Rightarrow>
             if c = newline then None
             else (case dropWhile (\<lambda>x. x \<noteq> CHR '','' \<and> x \<noteq> newline) r of
                     [] \<Rightarrow> None
                   | t # _ \<Rightarrow>
                       Some (c # takeWhile (\<lambda>x. x \<noteq> CHR '','' \<and> x \<noteq> newline) r)))
      else None)"

text \<open>
  The pattern \<^verbatim>\<open>up (.+?),\<close> of the macOS branch: as above, but only a comma ends the
  group, and a newline met before it makes the attempt fail.
\<close>

definition match_up_comma :: "string \<Rightarrow> string option" where
  "match_up_comma s =
     (if prefix ''up '' s then
        (case drop 3 s of
           [] \<Rightarrow> None
         | c # r \<Rightarrow>
             if c = newline then None
             else (case dropWhile (\<lambda>x. x \<noteq> CHR '','' \<and> x \<noteq> newline) r of
                     [] \<Rightarrow> None
                   | t # _ \<Rightarrow>
                       if t = CHR '','' then
                         Some (c # takeWhile (\<lambda>x. x \<noteq> CHR '','' \<and> x \<noteq> newline) r)
                       else None))
      else None)"

text \<open>
  The exceptions \<open>subprocess.run\<close> can raise. The outer handler names
  \<open>subprocess.SubprocessError\<close> and \<open>FileNotFoundError\<close>; \<open>PermissionError\<close> (the tool is
  found but may not be executed) and \<open>UnicodeDecodeError\<close> (the output is not valid text)
  are neither.
\<close>

datatype py_exception = FileNotFoundError | SubprocessError | PermissionError | UnicodeDecodeError

datatype command = Neofetch | UptimeP | UptimePlain

datatype uptime_log = ErrorRunningNeofetch py_exception | ErrorGettingUptime py_exception

text \<open>
  The host as the resolver sees it: what \<open>neofetch --stdout\<close>, \<open>uptime -p\<close> and \<open>uptime\<close> give
  (an exception, or the captured standard output) and the value of \<open>platform.system()\<close>.
\<close>

record host =
  neofetch :: "py_exception + string"
  platform_system :: string
  uptime_p :: "py_exception + string"
  uptime_plain :: "py_exception + string"

record uptime_run =
  commands :: "command list"
  logged :: "uptime_log list"
  result :: "py_exception + string"

definition unknown_format :: string where
  "unknown_format = ''Unknown (neofetch available but format not recognized)''"

definition unknown_unavailable :: string where
  "unknown_unavailable = ''Unknown (neofetch not available)''"

text \<open>
  The inner \<open>try\<close> of the handler: the platform's own command. \<open>None\<close> in the last component
  means that control falls through to the final \<open>return\<close>. Its \<open>except Exception\<close> takes
  every exception.
\<close>

definition native_uptime :: "host \<Rightarrow> command list \<times> uptime_log list \<times> string option" where
  "native_uptime h =
     (if platform_system h = ''Linux'' then
        (case uptime_p h of
           Inr out \<Rightarrow> ([UptimeP], [], Some (replace_up (strip out)))
         | Inl e \<Rightarrow> ([UptimeP], [ErrorGettingUptime e], None))
      else if platform_system h = ''Darwin'' then
        (case uptime_plain h of
           Inr out \<Rightarrow>
             ([UptimePlain], [], map_option strip (re_search match_up_comma out))
         | Inl e \<Rightarrow> ([UptimePlain], [ErrorGettingUptime e], None))
      else ([], [], None))"

definition get_server_uptime :: "host \<Rightarrow> uptime_run" where
  "get_server_uptime h =
     (case neofetch h of
        Inr output \<Rightarrow>
          (case re_search match_Uptime output of
             Some g \<Rightarrow> \<lparr>commands = [Neofetch], logged = [], result = Inr (strip g)\<rparr>
           | None \<Rightarrow>
               (case re_search match_up_comma_or_newline output of
                  Some g \<Rightarrow> \<lparr>commands = [Neofetch], logged = [], result = Inr (strip g)\<rparr>
                | None \<Rightarrow>
                    \<lparr>commands = [Neofetch], logged = [], result = Inr unknown_format\<rparr>))
      | Inl e \<Rightarrow>
          if e = SubprocessError \<or> e = FileNotFoundError then
            (case native_uptime h of
               (cs, ls, r) \<Rightarrow>
                 \<lparr>commands = Neofetch # cs, logged = ErrorRunningNeofetch e # ls,
                  result = Inr (case r of Some s \<Rightarrow> s | None \<Rightarrow> unknown_unavailable)\<rparr>)
          else \<lparr>commands = [Neofetch], logged = [], result = Inl e\<rparr>)"

text \<open>
  The handler's inner \<open>try\<close> gives no value: the platform is neither Linux nor macOS, or
  its command raises, or (macOS) the pattern finds nothing in its output.
\<close>

definition native_yields_nothing :: "host \<Rightarrow> bool" where
  "native_yields_nothing h =
     (if platform_system h = ''Linux'' then
        (case uptime_p h of Inl e \<Rightarrow> True | Inr out \<Rightarrow> False)
      else if platform_system h = ''Darwin'' then
        (case uptime_plain h of
           Inl e \<Rightarrow> True
         | Inr out \<Rightarrow> re_search match_up_comma out = None)
      else True)"

text \<open>
  Hosts for the examples. On each, \<open>uptime -p\<close> would answer \<open>up 2 hours, 5 minutes\<close>.
\<close>

definition linux_host :: "py_exception + string \<Rightarrow> host" where
  "linux_host n =
     \<lparr>neofetch = n, platform_system = ''Linux'',
      uptime_p = Inr (''up 2 hours, 5 minutes'' @ [newline]),
      uptime_plain = Inr ('' 10:00  up 2:05, 3 users'' @ [newline])\<rparr>"

definition bare_host :: "py_exception + string \<Rightarrow> host" where
  "bare_host n =
     \<lparr>neofetch = n, platform_system = ''Linux'',
      uptime_p = Inl FileNotFoundError, uptime_plain = Inl FileNotFoundError\<rparr>"

definition mac_host :: "py_exception + string \<Rightarrow> host" where
  "mac_host n =
     \<lparr>neofetch = n, platform_system = ''Darwin'',
      uptime_p = Inl SubprocessError,
      uptime_plain = Inr ('' 10:00  up 3 days, 2:05, 3 users'' @ [newline])\<rparr>"

subsection \<open>Accent colours of the embeds\<close>

text \<open>
  The six modes and the colour each embed is built with: \<open>create_stats_embed\<close> (full) and
  the commands \<open>cpu\<close>, \<open>memory\<close>, \<open>disk\<close>, \<open>network\<close> and \<open>uptime\<close>.
\<close>

datatype mode = Full | Cpu | Memory | Disk | Network | Uptime

fun embed_color :: "mode \<Rightarrow> nat" where
  "embed_color Full = 0x1E90FF"
| "embed_color Cpu = 0x1E90FF"
| "embed_color Memory = 0xFF69B4"
| "embed_color Disk = 0xFFD700"
| "embed_color Network = 0x8A2BE2"
| "embed_color Uptime = 0xFFA500"

text \<open>
  The colour of the message a command sends. The command \<open>stats\<close> takes the embed of
  \<open>create_stats_embed\<close> and sets \<open>embed.color = 0x32CD32\<close> before sending; the other
  commands send their embed as built. The periodic tick sends the full embed as built.
\<close>

fun command_color :: "mode \<Rightarrow> nat" where
  "command_color Full = 0x32CD32"
| "command_color m = embed_color m"

definition tick_color :: nat where
  "tick_color = embed_color Full"

section \<open>Properties\<close>

subsection \<open>Progress bar\<close>










subsection \<open>Publisher tick\<close>

lemma update_stats_resolved:
  assumes "tick_proceeds env"
  shows "update_stats env mid =
    (case mid of Some i \<Rightarrow> if i \<noteq> 0 then try_edit env i else first_send env mid
     | None \<Rightarrow> first_send env mid)"
  using assms by (auto simp: update_stats_def tick_proceeds_def split: option.splits)

lemma first_tick_sent:
  assumes "tick_proceeds env" and "send env = Inr m"
  shows "update_stats env None = sent m"
  using assms by (simp add: update_stats_resolved first_send_def sent_def)

lemma later_tick_edited:
  assumes "tick_proceeds env" and "m \<noteq> 0"
    and "fetch_message env m = None" and "edit env m = None"
  shows "update_stats env (Some m) = edited m"
  using assms by (simp add: update_stats_resolved try_edit_def edited_def)

lemma run_ticks_edited:
  assumes "m \<noteq> 0"
    and "\<forall>env \<in> set envs. tick_proceeds env \<and> fetch_message env m = None \<and> edit env m = None"
  shows "run_ticks (Some m) envs = replicate (length envs) (edited m)"
  using assms(2)
proof (induction envs)
  case Nil
  then show ?case by simp
next
  case (Cons env envs)
  then have "update_stats env (Some m) = edited m"
    using assms(1) by (simp add: later_tick_edited)
  then show ?case using Cons by (simp add: edited_def Let_def)
qed

text \<open>
  Claim C1. In ticks that reach the branch (channel resolved, embed built): from the unset
  id, a tick whose send returns the message \<open>m\<close> stores \<open>m\<close>; every
  later tick in which the fetch and the edit return makes exactly these two calls, both on
  \<open>m\<close>, and no send, and keeps \<open>m\<close>. So a first tick followed by any number of such ticks
  (two, in the scenario of the specification) refers to the one id \<open>m\<close> throughout. The id
  of a message is a snowflake and never 0; an id 0 would read as unset.
\<close>

theorem publisher_send_then_edit:
  assumes "tick_proceeds e1" and "send e1 = Inr m" and "m \<noteq> 0"
    and "\<forall>env \<in> set envs.
           tick_proceeds env \<and> fetch_message env m = None \<and> edit env m = None"
  shows "update_stats e1 None = sent m
         \<and> (\<forall>env \<in> set envs. update_stats env (Some m) = edited m)
         \<and> run_ticks None (e1 # envs) = sent m # replicate (length envs) (edited m)
         \<and> (\<forall>env \<in> set envs.
               calls (update_stats env (Some m)) = [FetchMessage m, EditMessage m]
               \<and> monitor_message_id (update_stats env (Some m)) = Some m)"
proof -
  have first: "update_stats e1 None = sent m"
    using assms(1,2) by (rule first_tick_sent)
  have later: "\<forall>env \<in> set envs. update_stats env (Some m) = edited m"
    using assms(3,4) by (simp add: later_tick_edited)
  have rest: "run_ticks (Some m) envs = replicate (length envs) (edited m)"
    using assms(3,4) by (rule run_ticks_edited)
  have run: "run_ticks None (e1 # envs) = sent m # replicate (length envs) (edited m)"
    by (simp add: first rest Let_def sent_def)
  show ?thesis using first later run by (simp add: sent_def edited_def)
qed

theorem publisher_send_then_edit_witness:
  "run_ticks None [env_ok 42, env_ok 43, env_ok 44] =
     [\<lparr>monitor_message_id = Some 42, calls = [SendMessage], printed = [], outcome = Returned\<rparr>,
      \<lparr>monitor_message_id = Some 42, calls = [FetchMessage 42, EditMessage 42],
       printed = [], outcome = Returned\<rparr>,
      \<lparr>monitor_message_id = Some 42, calls = [FetchMessage 42, EditMessage 42],
       printed = [], outcome = Returned\<rparr>]"
proof -
  have h1: "tick_proceeds (env_ok 42)" by (simp add: tick_proceeds_def env_ok_def)
  have h2: "send (env_ok 42) = Inr 42" by (simp add: env_ok_def)
  have h3: "(42::int) \<noteq> 0" by simp
  have h4: "\<forall>env \<in> set [env_ok 43, env_ok 44].
           tick_proceeds env \<and> fetch_message env 42 = None \<and> edit env 42 = None"
    by (simp add: tick_proceeds_def env_ok_def)
  have "run_ticks None (env_ok 42 # [env_ok 43, env_ok 44]) =
      sent 42 # replicate (length [env_ok 43, env_ok 44]) (edited 42)"
    using publisher_send_then_edit [OF h1 h2 h3 h4] by blast
  then show ?thesis
    by (simp add: sent_def edited_def del: run_ticks.simps)
qed

text \<open>
  Claim C2. With the message \<open>i\<close> tracked, if the fetch or the edit raises \<open>NotFound\<close>, the
  same tick ends with a send, and when that send returns the message \<open>n\<close> the tracked id
  becomes \<open>n\<close>. (When the send raises, the exception leaves the tick and \<open>i\<close> stays.)
\<close>

theorem update_stats_not_found_resends:
  assumes "tick_proceeds env" and "i \<noteq> 0"
    and "fetch_message env i = Some NotFound
         \<or> (fetch_message env i = None \<and> edit env i = Some NotFound)"
  shows "last (calls (update_stats env (Some i))) = SendMessage
         \<and> SendMessage \<in> set (calls (update_stats env (Some i)))
         \<and> (\<forall>n. send env = Inr n \<longrightarrow>
               monitor_message_id (update_stats env (Some i)) = Some n
               \<and> outcome (update_stats env (Some i)) = Returned)
         \<and> (\<forall>e. send env = Inl e \<longrightarrow>
               monitor_message_id (update_stats env (Some i)) = Some i
               \<and> outcome (update_stats env (Some i)) = Raised e)"
  using assms
  by (auto simp: update_stats_resolved try_edit_def resend_def split: sum.splits)

theorem update_stats_not_found_resends_witness:
  "update_stats env_deleted (Some 42) =
     \<lparr>monitor_message_id = Some 99, calls = [FetchMessage 42, SendMessage],
      printed = [], outcome = Returned\<rparr>
   \<and> last (calls (update_stats env_deleted (Some 42))) = SendMessage"
proof -
  have h1: "tick_proceeds env_deleted" by (simp add: tick_proceeds_def env_deleted_def)
  have h2: "(42::int) \<noteq> 0" by simp
  have h3: "fetch_message env_deleted 42 = Some NotFound
         \<or> (fetch_message env_deleted 42 = None \<and> edit env_deleted 42 = Some NotFound)"
    by (simp add: env_deleted_def)
  have "update_stats env_deleted (Some 42) =
     \<lparr>monitor_message_id = Some 99, calls = [FetchMessage 42, SendMessage],
      printed = [], outcome = Returned\<rparr>"
    by (simp add: update_stats_def env_deleted_def try_edit_def resend_def)
  then show ?thesis
    using update_stats_not_found_resends [OF h1 h2 h3] by simp
qed

text \<open>
  Claim C3. If the channel id is 0, or is not resolved to a channel, the tick makes no call
  on the API and leaves the tracked id as it was.
\<close>

theorem update_stats_no_channel:
  assumes "MONITOR_CHANNEL_ID env = 0 \<or> get_channel env (MONITOR_CHANNEL_ID env) = None"
  shows "calls (update_stats env mid) = []
         \<and> monitor_message_id (update_stats env mid) = mid
         \<and> outcome (update_stats env mid) = Returned"
  using assms by (auto simp: update_stats_def)

theorem update_stats_no_channel_witness:
  "calls (update_stats env_unset (Some 42)) = []
   \<and> monitor_message_id (update_stats env_unset (Some 42)) = Some 42
   \<and> calls (update_stats env_no_channel None) = []
   \<and> monitor_message_id (update_stats env_no_channel None) = None"
proof -
  have h1: "MONITOR_CHANNEL_ID env_unset = 0
      \<or> get_channel env_unset (MONITOR_CHANNEL_ID env_unset) = None"
    by (simp add: env_unset_def)
  have h2: "MONITOR_CHANNEL_ID env_no_channel = 0
      \<or> get_channel env_no_channel (MONITOR_CHANNEL_ID env_no_channel) = None"
    by (simp add: env_no_channel_def)
  show ?thesis
    using update_stats_no_channel [OF h1, of "Some 42"] update_stats_no_channel [OF h2, of None]
    by simp
qed

lemma send_failed_keeps_id: "monitor_message_id (send_failed env mid cs e) = mid"
  by (cases e) simp_all

lemma edit_failed_keeps_id:
  "e \<noteq> NotFound \<Longrightarrow> monitor_message_id (edit_failed env mid cs e) = mid"
  by (cases e) simp_all

lemma edit_failed_calls:
  "e \<noteq> NotFound \<Longrightarrow> calls (edit_failed env mid cs e) = cs"
  by (cases e) simp_all

text \<open>
  Claim C4. A send that fails from the unset id leaves the id unset, whatever the error; a
  fetch or an edit of the tracked message \<open>i\<close> that fails with an error other than
  \<open>NotFound\<close> leaves \<open>i\<close> tracked, and no send is made.
\<close>

theorem update_stats_failure_keeps_state:
  assumes "tick_proceeds env"
  shows "(send env = Inl e \<longrightarrow> monitor_message_id (update_stats env None) = None)
         \<and> (i \<noteq> 0 \<and> e \<noteq> NotFound
              \<and> (fetch_message env i = Some e
                  \<or> (fetch_message env i = None \<and> edit env i = Some e))
             \<longrightarrow> monitor_message_id (update_stats env (Some i)) = Some i
                 \<and> SendMessage \<notin> set (calls (update_stats env (Some i))))"
  using assms
  by (auto simp: update_stats_resolved first_send_def try_edit_def send_failed_keeps_id
      edit_failed_keeps_id edit_failed_calls)

theorem update_stats_failure_keeps_state_witness:
  "monitor_message_id (update_stats env_forbidden None) = None
   \<and> monitor_message_id (update_stats env_forbidden (Some 42)) = Some 42"
proof -
  have h: "tick_proceeds env_forbidden"
    by (simp add: tick_proceeds_def env_forbidden_def)
  have s: "send env_forbidden = Inl Forbidden" by (simp add: env_forbidden_def)
  have f: "(42::int) \<noteq> 0 \<and> Forbidden \<noteq> NotFound
      \<and> (fetch_message env_forbidden 42 = Some Forbidden
         \<or> (fetch_message env_forbidden 42 = None \<and> edit env_forbidden 42 = Some Forbidden))"
    by (simp add: env_forbidden_def)
  show ?thesis
    using update_stats_failure_keeps_state [OF h, of Forbidden 42] s f by simp
qed

subsection \<open>Uptime resolver\<close>

lemma re_search_skip:
  assumes "\<forall>k<length pre. m (drop k (pre @ s)) = None"
  shows "re_search m (pre @ s) = re_search m s"
  using assms
proof (induction pre)
  case Nil
  then show ?case by simp
next
  case (Cons c pre)
  have "m (drop 0 ((c # pre) @ s)) = None" using Cons.prems by blast
  then have here: "m (c # pre @ s) = None" by simp
  have "\<forall>k<length pre. m (drop k (pre @ s)) = None"
  proof (intro allI impI)
    fix k assume "k < length pre"
    then have "m (drop (Suc k) ((c # pre) @ s)) = None" using Cons.prems by auto
    then show "m (drop k (pre @ s)) = None" by simp
  qed
  then have "re_search m (pre @ s) = re_search m s" by (rule Cons.IH)
  then show ?case using here by simp
qed

lemma match_Uptime_no_prefix: "\<not> prefix ''Uptime: '' s \<Longrightarrow> match_Uptime s = None"
  by (simp add: match_Uptime_def)

lemma match_up_no_prefix:
  "\<not> prefix ''up '' s \<Longrightarrow> match_up_comma_or_newline s = None"
  by (simp add: match_up_comma_or_newline_def)

lemma strip_trailing_space:
  assumes "s \<noteq> []" and "\<not> isspace (hd s)" and "\<not> isspace (last s)"
    and "\<forall>c \<in> set ws. isspace c"
  shows "strip (s @ ws) = s"
proof -
  obtain a s' where s: "s = a # s'" using assms(1) by (cases s) auto
  have front: "dropWhile isspace (s @ ws) = s @ ws" using assms(2) s by simp
  obtain s'' b where r: "s = s'' @ [b]" using assms(1) by (cases s rule: rev_cases) auto
  have nb: "\<not> isspace b" using assms(3) r by simp
  have "dropWhile isspace (rev (s @ ws)) = dropWhile isspace (rev ws @ rev s)" by simp
  also have "\<dots> = dropWhile isspace (rev s)"
    by (rule dropWhile_append2) (use assms(4) in auto)
  also have "\<dots> = rev s" using nb r by simp
  finally show ?thesis by (simp add: strip_def front)
qed

lemma match_Uptime_3_days:
  "match_Uptime (''Uptime: 3 days'' @ post) = Some (''3 days'' @ takeWhile (\<lambda>c. c \<noteq> newline) post)"
  by (simp add: match_Uptime_def newline_def)

lemma match_up_2_hours:
  "match_up_comma_or_newline (''up 2 hours,'' @ post) = Some ''2 hours''"
  by (simp add: match_up_comma_or_newline_def newline_def)

lemma strip_3_days:
  "\<forall>c \<in> set ws. isspace c \<Longrightarrow> strip (''3 days'' @ ws) = ''3 days''"
  by (rule strip_trailing_space) (simp_all add: isspace_def)

lemma strip_2_hours: "strip ''2 hours'' = ''2 hours''"
  by (simp add: strip_def isspace_def)

lemma native_yields_nothing_iff:
  "native_yields_nothing h \<longleftrightarrow> snd (snd (native_uptime h)) = None"
  by (auto simp: native_yields_nothing_def native_uptime_def split: sum.splits)

lemma get_server_uptime_fallback:
  assumes "neofetch h = Inl e" and "e = SubprocessError \<or> e = FileNotFoundError"
  shows "commands (get_server_uptime h) = Neofetch # fst (native_uptime h)"
    and "result (get_server_uptime h) =
           Inr (case snd (snd (native_uptime h)) of Some s \<Rightarrow> s | None \<Rightarrow> unknown_unavailable)"
  using assms by (auto simp: get_server_uptime_def split: prod.splits)

text \<open>
  Claim C6 as stated returns \<open>3 days\<close> for every output that contains \<open>Uptime: 3 days\<close>.
  The group runs to the end of the line: on the output \<open>Uptime: 3 days, 4 hours\<close> the
  resolver returns \<open>3 days, 4 hours\<close>.
\<close>

theorem get_server_uptime_outcomes_counterexample:
  "prefix ''Uptime: 3 days'' ''Uptime: 3 days, 4 hours''
   \<and> result (get_server_uptime (linux_host (Inr ''Uptime: 3 days, 4 hours'')))
       = Inr ''3 days, 4 hours''
   \<and> result (get_server_uptime (linux_host (Inr ''Uptime: 3 days, 4 hours'')))
       \<noteq> Inr ''3 days''"
  by (simp add: get_server_uptime_def linux_host_def match_Uptime_def newline_def strip_def
      isspace_def)

text \<open>
  Claim C6, amended. If the first \<open>Uptime: \<close> of the output of the tool is followed by
  \<open>3 days\<close> and then only whitespace up to the end of its line, the resolver returns
  \<open>3 days\<close>. If the output has no match of the first pattern and its first \<open>up \<close> is
  followed by \<open>2 hours,\<close>, the resolver returns \<open>2 hours\<close>. If the tool is missing or
  fails with a subprocess error and the platform's command gives no value, the resolver
  returns \<open>Unknown (neofetch not available)\<close>.
\<close>

theorem get_server_uptime_outcomes:
  "(neofetch h = Inr (pre @ ''Uptime: 3 days'' @ post)
      \<and> (\<forall>k<length pre. \<not> prefix ''Uptime: '' (drop k (pre @ ''Uptime: 3 days'' @ post)))
      \<and> (\<forall>c \<in> set (takeWhile (\<lambda>c. c \<noteq> newline) post). isspace c)
     \<longrightarrow> result (get_server_uptime h) = Inr ''3 days'')
   \<and> (neofetch h = Inr (pre @ ''up 2 hours,'' @ post)
      \<and> re_search match_Uptime (pre @ ''up 2 hours,'' @ post) = None
      \<and> (\<forall>k<length pre. \<not> prefix ''up '' (drop k (pre @ ''up 2 hours,'' @ post)))
     \<longrightarrow> result (get_server_uptime h) = Inr ''2 hours'')
   \<and> ((neofetch h = Inl FileNotFoundError \<or> neofetch h = Inl SubprocessError)
      \<and> native_yields_nothing h
     \<longrightarrow> result (get_server_uptime h) = Inr unknown_unavailable)"
proof (intro conjI impI)
  assume a: "neofetch h = Inr (pre @ ''Uptime: 3 days'' @ post)
      \<and> (\<forall>k<length pre. \<not> prefix ''Uptime: '' (drop k (pre @ ''Uptime: 3 days'' @ post)))
      \<and> (\<forall>c \<in> set (takeWhile (\<lambda>c. c \<noteq> newline) post). isspace c)"
  let ?s = "''Uptime: 3 days'' @ post"
  have "\<forall>k<length pre. match_Uptime (drop k (pre @ ?s)) = None"
    using a by (simp add: match_Uptime_no_prefix)
  then have "re_search match_Uptime (pre @ ?s) = re_search match_Uptime ?s"
    by (rule re_search_skip)
  also have "\<dots> = Some (''3 days'' @ takeWhile (\<lambda>c. c \<noteq> newline) post)"
    using match_Uptime_3_days[of post] by simp
  finally have found: "re_search match_Uptime (pre @ ?s) =
      Some (''3 days'' @ takeWhile (\<lambda>c. c \<noteq> newline) post)" .
  have "strip (''3 days'' @ takeWhile (\<lambda>c. c \<noteq> newline) post) = ''3 days''"
    using a by (intro strip_3_days) simp
  then show "result (get_server_uptime h) = Inr ''3 days''"
    using a found by (simp add: get_server_uptime_def)
next
  assume a: "neofetch h = Inr (pre @ ''up 2 hours,'' @ post)
      \<and> re_search match_Uptime (pre @ ''up 2 hours,'' @ post) = None
      \<and> (\<forall>k<length pre. \<not> prefix ''up '' (drop k (pre @ ''up 2 hours,'' @ post)))"
  let ?s = "''up 2 hours,'' @ post"
  have "\<forall>k<length pre. match_up_comma_or_newline (drop k (pre @ ?s)) = None"
    using a by (simp add: match_up_no_prefix)
  then have "re_search match_up_comma_or_newline (pre @ ?s)
      = re_search match_up_comma_or_newline ?s"
    by (rule re_search_skip)
  also have "\<dots> = Some ''2 hours''"
    using match_up_2_hours[of post] by simp
  finally have found: "re_search match_up_comma_or_newline (pre @ ?s) = Some ''2 hours''" .
  show "result (get_server_uptime h) = Inr ''2 hours''"
    using a found by (simp add: get_server_uptime_def strip_2_hours)
next
  assume a: "(neofetch h = Inl FileNotFoundError \<or> neofetch h = Inl SubprocessError)
      \<and> native_yields_nothing h"
  then have none: "snd (snd (native_uptime h)) = None"
    by (simp add: native_yields_nothing_iff)
  from a obtain e where e: "neofetch h = Inl e" "e = SubprocessError \<or> e = FileNotFoundError"
    by auto
  show "result (get_server_uptime h) = Inr unknown_unavailable"
    using get_server_uptime_fallback(2)[OF e] none by simp
qed

theorem get_server_uptime_outcomes_witness:
  "result (get_server_uptime
      (linux_host (Inr ((''OS: Ubuntu'' @ [newline]) @ ''Uptime: 3 days'' @ ('' '' @ [newline] @ ''Shell: bash'')))))
     = Inr ''3 days''
   \<and> result (get_server_uptime (linux_host (Inr (''10:00 '' @ ''up 2 hours,'' @ '' 3 users''))))
     = Inr ''2 hours''
   \<and> result (get_server_uptime (bare_host (Inl FileNotFoundError))) = Inr unknown_unavailable"
proof -
  let ?pre1 = "''OS: Ubuntu'' @ [newline]"
  let ?post1 = "'' '' @ [newline] @ ''Shell: bash''"
  let ?h1 = "linux_host (Inr (?pre1 @ ''Uptime: 3 days'' @ ?post1))"
  have a1: "neofetch ?h1 = Inr (?pre1 @ ''Uptime: 3 days'' @ ?post1)"
    by (simp add: linux_host_def)
  have a2: "\<forall>k<length ?pre1. \<not> prefix ''Uptime: '' (drop k (?pre1 @ ''Uptime: 3 days'' @ ?post1))"
    by (simp add: newline_def All_less_Suc)
  have a3: "\<forall>c \<in> set (takeWhile (\<lambda>c. c \<noteq> newline) ?post1). isspace c"
    by (simp add: newline_def isspace_def)
  let ?pre2 = "''10:00 ''"
  let ?post2 = "'' 3 users''"
  let ?h2 = "linux_host (Inr (?pre2 @ ''up 2 hours,'' @ ?post2))"
  have b1: "neofetch ?h2 = Inr (?pre2 @ ''up 2 hours,'' @ ?post2)"
    by (simp add: linux_host_def)
  have b2: "re_search match_Uptime (?pre2 @ ''up 2 hours,'' @ ?post2) = None"
    by (simp add: match_Uptime_def)
  have b3: "\<forall>k<length ?pre2. \<not> prefix ''up '' (drop k (?pre2 @ ''up 2 hours,'' @ ?post2))"
    by (simp add: All_less_Suc)
  let ?h3 = "bare_host (Inl FileNotFoundError)"
  have c1: "neofetch ?h3 = Inl FileNotFoundError \<or> neofetch ?h3 = Inl SubprocessError"
    by (simp add: bare_host_def)
  have c2: "native_yields_nothing ?h3"
    by (simp add: native_yields_nothing_def bare_host_def)
  show ?thesis
    using get_server_uptime_outcomes [of ?h1 ?pre1 ?post1] a1 a2 a3
      get_server_uptime_outcomes [of ?h2 ?pre2 ?post2] b1 b2 b3
      get_server_uptime_outcomes [of ?h3] c1 c2
    by blast
qed

text \<open>
  Claim C7 as stated has the platform's command tried when the tool runs and its output
  matches neither pattern. On such an output the resolver returns its first sentinel and
  runs no further command, although \<open>uptime -p\<close> would have answered.
\<close>

theorem get_server_uptime_order_counterexample:
  "re_search match_Uptime ''neofetch 7.1.0'' = None
   \<and> re_search match_up_comma_or_newline ''neofetch 7.1.0'' = None
   \<and> result (get_server_uptime (linux_host (Inr ''neofetch 7.1.0''))) = Inr unknown_format
   \<and> commands (get_server_uptime (linux_host (Inr ''neofetch 7.1.0''))) = [Neofetch]
   \<and> result (get_server_uptime (linux_host (Inl FileNotFoundError)))
       = Inr ''2 hours, 5 minutes''"
  by (simp add: get_server_uptime_def linux_host_def match_Uptime_def
      match_up_comma_or_newline_def native_uptime_def newline_def strip_def isspace_def)

text \<open>
  Claim C7, amended. When the tool runs, no other command is run: the first pattern wins,
  then the second, and with neither the resolver returns
  \<open>Unknown (neofetch available but format not recognized)\<close>. Only when running the tool
  raises \<open>SubprocessError\<close> or \<open>FileNotFoundError\<close> is the platform's command run: on
  Linux its stripped output without \<open>up \<close> is returned, on macOS the stripped group of the
  pattern, and when it gives no value the resolver returns
  \<open>Unknown (neofetch not available)\<close>.
\<close>

theorem get_server_uptime_order:
  "(neofetch h = Inr out \<longrightarrow> commands (get_server_uptime h) = [Neofetch])
   \<and> (neofetch h = Inr out \<and> re_search match_Uptime out = Some g
        \<longrightarrow> result (get_server_uptime h) = Inr (strip g))
   \<and> (neofetch h = Inr out \<and> re_search match_Uptime out = None
        \<and> re_search match_up_comma_or_newline out = Some g
        \<longrightarrow> result (get_server_uptime h) = Inr (strip g))
   \<and> (neofetch h = Inr out \<and> re_search match_Uptime out = None
        \<and> re_search match_up_comma_or_newline out = None
        \<longrightarrow> result (get_server_uptime h) = Inr unknown_format)
   \<and> (neofetch h = Inl e \<and> (e = SubprocessError \<or> e = FileNotFoundError)
        \<and> platform_system h = ''Linux'' \<and> uptime_p h = Inr out
        \<longrightarrow> commands (get_server_uptime h) = [Neofetch, UptimeP]
            \<and> result (get_server_uptime h) = Inr (replace_up (strip out)))
   \<and> (neofetch h = Inl e \<and> (e = SubprocessError \<or> e = FileNotFoundError)
        \<and> platform_system h = ''Darwin'' \<and> uptime_plain h = Inr out
        \<and> re_search match_up_comma out = Some g
        \<longrightarrow> commands (get_server_uptime h) = [Neofetch, UptimePlain]
            \<and> result (get_server_uptime h) = Inr (strip g))
   \<and> (neofetch h = Inl e \<and> (e = SubprocessError \<or> e = FileNotFoundError)
        \<and> native_yields_nothing h
        \<longrightarrow> result (get_server_uptime h) = Inr unknown_unavailable)"
proof (intro conjI impI)
  assume "neofetch h = Inr out"
  then show "commands (get_server_uptime h) = [Neofetch]"
    by (simp add: get_server_uptime_def split: option.splits)
next
  assume "neofetch h = Inr out \<and> re_search match_Uptime out = Some g"
  then show "result (get_server_uptime h) = Inr (strip g)"
    by (simp add: get_server_uptime_def)
next
  assume "neofetch h = Inr out \<and> re_search match_Uptime out = None
        \<and> re_search match_up_comma_or_newline out = Some g"
  then show "result (get_server_uptime h) = Inr (strip g)"
    by (simp add: get_server_uptime_def)
next
  assume "neofetch h = Inr out \<and> re_search match_Uptime out = None
        \<and> re_search match_up_comma_or_newline out = None"
  then show "result (get_server_uptime h) = Inr unknown_format"
    by (simp add: get_server_uptime_def)
next
  assume a: "neofetch h = Inl e \<and> (e = SubprocessError \<or> e = FileNotFoundError)
        \<and> platform_system h = ''Linux'' \<and> uptime_p h = Inr out"
  then have e: "neofetch h = Inl e" "e = SubprocessError \<or> e = FileNotFoundError" by auto
  have n: "native_uptime h = ([UptimeP], [], Some (replace_up (strip out)))"
    using a by (simp add: native_uptime_def)
  show "commands (get_server_uptime h) = [Neofetch, UptimeP]"
    using get_server_uptime_fallback(1)[OF e] n by simp
  show "result (get_server_uptime h) = Inr (replace_up (strip out))"
    using get_server_uptime_fallback(2)[OF e] n by simp
next
  assume a: "neofetch h = Inl e \<and> (e = SubprocessError \<or> e = FileNotFoundError)
        \<and> platform_system h = ''Darwin'' \<and> uptime_plain h = Inr out
        \<and> re_search match_up_comma out = Some g"
  then have e: "neofetch h = Inl e" "e = SubprocessError \<or> e = FileNotFoundError" by auto
  have n: "native_uptime h = ([UptimePlain], [], Some (strip g))"
    using a by (simp add: native_uptime_def)
  show "commands (get_server_uptime h) = [Neofetch, UptimePlain]"
    using get_server_uptime_fallback(1)[OF e] n by simp
  show "result (get_server_uptime h) = Inr (strip g)"
    using get_server_uptime_fallback(2)[OF e] n by simp
next
  assume a: "neofetch h = Inl e \<and> (e = SubprocessError \<or> e = FileNotFoundError)
        \<and> native_yields_nothing h"
  then have e: "neofetch h = Inl e" "e = SubprocessError \<or> e = FileNotFoundError" by auto
  have "snd (snd (native_uptime h)) = None"
    using a by (simp add: native_yields_nothing_iff)
  then show "result (get_server_uptime h) = Inr unknown_unavailable"
    using get_server_uptime_fallback(2)[OF e] by simp
qed

theorem get_server_uptime_order_witness:
  "commands (get_server_uptime (linux_host (Inr ''neofetch 7.1.0''))) = [Neofetch]
   \<and> result (get_server_uptime (linux_host (Inr ''neofetch 7.1.0''))) = Inr unknown_format
   \<and> commands (get_server_uptime (linux_host (Inl FileNotFoundError))) = [Neofetch, UptimeP]
   \<and> result (get_server_uptime (linux_host (Inl FileNotFoundError))) = Inr ''2 hours, 5 minutes''
   \<and> commands (get_server_uptime (mac_host (Inl SubprocessError))) = [Neofetch, UptimePlain]
   \<and> result (get_server_uptime (mac_host (Inl SubprocessError))) = Inr ''3 days''
   \<and> result (get_server_uptime (bare_host (Inl FileNotFoundError))) = Inr unknown_unavailable"
proof -
  let ?out = "''neofetch 7.1.0''"
  let ?h1 = "linux_host (Inr ?out)"
  have a: "neofetch ?h1 = Inr ?out" "re_search match_Uptime ?out = None"
    "re_search match_up_comma_or_newline ?out = None"
    by (simp_all add: linux_host_def match_Uptime_def match_up_comma_or_newline_def)
  let ?h2 = "linux_host (Inl FileNotFoundError)"
  let ?o2 = "''up 2 hours, 5 minutes'' @ [newline]"
  have b: "neofetch ?h2 = Inl FileNotFoundError" "platform_system ?h2 = ''Linux''"
    "uptime_p ?h2 = Inr ?o2"
    by (simp_all add: linux_host_def)
  have b': "replace_up (strip ?o2) = ''2 hours, 5 minutes''"
    by (simp add: strip_def isspace_def newline_def)
  let ?h3 = "mac_host (Inl SubprocessError)"
  let ?o3 = "'' 10:00  up 3 days, 2:05, 3 users'' @ [newline]"
  have c: "neofetch ?h3 = Inl SubprocessError" "platform_system ?h3 = ''Darwin''"
    "uptime_plain ?h3 = Inr ?o3" "re_search match_up_comma ?o3 = Some ''3 days''"
    by (simp_all add: mac_host_def match_up_comma_def newline_def)
  have c': "strip ''3 days'' = ''3 days''"
    by (simp add: strip_def isspace_def)
  let ?h4 = "bare_host (Inl FileNotFoundError)"
  have d: "neofetch ?h4 = Inl FileNotFoundError" "native_yields_nothing ?h4"
    by (simp_all add: bare_host_def native_yields_nothing_def)
  show ?thesis
    using get_server_uptime_order [where h = ?h1 and out = ?out] a
      get_server_uptime_order [where h = ?h2 and e = FileNotFoundError and out = ?o2] b b'
      get_server_uptime_order
        [where h = ?h3 and e = SubprocessError and out = ?o3 and g = "''3 days''"] c c'
      get_server_uptime_order [where h = ?h4 and e = FileNotFoundError] d
    by simp
qed

text \<open>
  The resolver returns a string whenever running the tool raises nothing, or one of the two
  exceptions the outer handler names.
\<close>

lemma get_server_uptime_returns_when_caught:
  assumes "neofetch h \<noteq> Inl PermissionError" and "neofetch h \<noteq> Inl UnicodeDecodeError"
  shows "\<exists>s. result (get_server_uptime h) = Inr s"
proof (cases "neofetch h")
  case (Inr out)
  then show ?thesis by (simp add: get_server_uptime_def split: option.splits)
next
  case (Inl e)
  then have "e = SubprocessError \<or> e = FileNotFoundError" using assms by (cases e) auto
  then show ?thesis using get_server_uptime_fallback(2)[OF Inl] by simp
qed

text \<open>
  Claim C9 says that the resolver returns a string whatever the external commands do. When
  the tool is found but may not be executed, \<open>subprocess.run\<close> raises \<open>PermissionError\<close>,
  which the outer handler does not name: the exception leaves the resolver, and the
  platform's command is not tried.
\<close>

theorem get_server_uptime_permission_error_propagates:
  "get_server_uptime (linux_host (Inl PermissionError))
     = \<lparr>commands = [Neofetch], logged = [], result = Inl PermissionError\<rparr>
   \<and> (\<forall>s. result (get_server_uptime (linux_host (Inl PermissionError))) \<noteq> Inr s)"
  by (simp add: get_server_uptime_def linux_host_def)

subsection \<open>Accent colours\<close>

text \<open>
  Claim C8 as stated gives every two modes different colours. The full embed and the cpu
  embed are both built with 0x1E90FF.
\<close>

theorem embed_color_full_cpu_counterexample:
  "Full \<noteq> Cpu \<and> embed_color Full = embed_color Cpu"
  by simp

text \<open>
  Claim C8, amended. The messages the six commands send have pairwise different colours,
  the command \<open>stats\<close> having recoloured the full embed; the embeds as built share a colour
  only within the pair full and cpu.
\<close>

theorem command_color_distinct:
  "(m1 \<noteq> m2 \<longrightarrow> command_color m1 \<noteq> command_color m2)
   \<and> (embed_color m1 = embed_color m2 \<longleftrightarrow> m1 = m2 \<or> {m1, m2} = {Full, Cpu})"
  by (cases m1; cases m2) (simp_all add: doubleton_eq_iff)

theorem command_color_distinct_witness:
  "Full \<noteq> Cpu \<and> command_color Full \<noteq> command_color Cpu
   \<and> embed_color Memory \<noteq> embed_color Disk"
  using command_color_distinct [of Full Cpu] command_color_distinct [of Memory Disk] by simp

end
